theory Spec2Isabelle
  imports Complex_Main "HOL-Library.Word"
begin

section \<open>Data frames\<close>

text \<open>
  The notebook works on pandas data frames. A frame is a row
  index together with an ordered list of named columns, and every column has one dtype.
  The table read from \<^verbatim>\<open>WAGE.csv\<close> has integer columns (int64) and float columns
  (float64); \<^verbatim>\<open>pd.get_dummies\<close> adds columns of dtype uint8, the default dtype of the
  pandas release whose output the notebook records (the dummies print as 0 and 1 and enter the
  regressions as numeric columns under their own names).

  No arithmetic is done on the int64 columns, so their cells are \<open>int\<close>. A float64 cell
  is a finite float, an infinity or NaN; the finite floats are opaque (the type \<open>'f\<close>),
  since the notebook itself never computes with them. NaN is how pandas stores a missing
  value. The uint8 cells are \<open>8 word\<close>, whose product wraps as numpy's does.

  The row index is the default \<^verbatim>\<open>RangeIndex\<close> throughout the notebook (it is created by
  \<^verbatim>\<open>read_csv\<close> and kept by \<^verbatim>\<open>get_dummies\<close>), so a frame records only the number
  of rows and index alignment is positional.
\<close>

datatype 'f float64 = Fin 'f | PosInf | NegInf | NaN

datatype 'f column =
    Int64 "int list"
  | Float64 "'f float64 list"
  | UInt8 "8 word list"

fun col_len :: "'f column \<Rightarrow> nat" where
  "col_len (Int64 xs) = length xs"
| "col_len (Float64 xs) = length xs"
| "col_len (UInt8 xs) = length xs"

record 'f frame =
  nrows :: nat
  cols :: "(string \<times> 'f column) list"

text \<open>
  Errors are values. \<open>Outside_model\<close> marks a library branch whose outcome is not
  modelled (float formatting, float comparison, formula syntax the notebook does not use,
  a regression on infinite values that the library does not refuse at once); the model
  stops there instead of guessing a result.
\<close>

datatype error =
    FileNotFoundError string
  | KeyError string
  | NameError string
  | PatsyError string
  | ValueError string
  | MissingDataError string
  | Outside_model string

definition and_then :: "error + 'a \<Rightarrow> ('a \<Rightarrow> error + 'b) \<Rightarrow> error + 'b" where
  "and_then m f = (case m of Inl e \<Rightarrow> Inl e | Inr x \<Rightarrow> f x)"

primrec map_err :: "('a \<Rightarrow> error + 'b) \<Rightarrow> 'a list \<Rightarrow> error + 'b list" where
  "map_err f [] = Inr []"
| "map_err f (x # xs) =
     and_then (f x) (\<lambda>y. and_then (map_err f xs) (\<lambda>ys. Inr (y # ys)))"

text \<open>\<^verbatim>\<open>df[name]\<close>: the column, or \<^verbatim>\<open>KeyError\<close>.\<close>

definition getitem :: "'f frame \<Rightarrow> string \<Rightarrow> error + 'f column" where
  "getitem df name =
     (case map_of (cols df) name of
        None \<Rightarrow> Inl (KeyError name)
      | Some c \<Rightarrow> Inr c)"

text \<open>
  \<^verbatim>\<open>df[name] = series\<close>: an existing column is replaced where it stands, a new one is
  appended after the last column.
\<close>

primrec set_col :: "string \<Rightarrow> 'f column \<Rightarrow> (string \<times> 'f column) list \<Rightarrow> (string \<times> 'f column) list" where
  "set_col name c [] = [(name, c)]"
| "set_col name c (p # ps) =
     (if fst p = name then (name, c) # ps else p # set_col name c ps)"

definition setitem :: "'f frame \<Rightarrow> string \<Rightarrow> 'f column \<Rightarrow> 'f frame" where
  "setitem df name c = df\<lparr>cols := set_col name c (cols df)\<rparr>"

text \<open>
  \<^verbatim>\<open>a * b\<close> on two series of one frame. The notebook multiplies dummy columns only,
  which are uint8; the product of two uint8 arrays is uint8 and wraps modulo 256.
\<close>

fun mul_series :: "'f column \<Rightarrow> 'f column \<Rightarrow> error + 'f column" where
  "mul_series (UInt8 xs) (UInt8 ys) = Inr (UInt8 (map (\<lambda>(x, y). x * y) (zip xs ys)))"
| "mul_series _ _ = Inl (Outside_model ''Series.__mul__ on a dtype other than uint8'')"

subsection \<open>Decimal text of an integer\<close>

text \<open>\<^verbatim>\<open>str(level)\<close> for an integer level, used in the names of the dummy columns.\<close>

definition digit_char :: "nat \<Rightarrow> char" where
  "digit_char d = ''0123456789'' ! d"

fun nat_to_str :: "nat \<Rightarrow> string" where
  "nat_to_str n =
     (if n < 10 then [digit_char n] else nat_to_str (n div 10) @ [digit_char (n mod 10)])"

definition int_to_str :: "int \<Rightarrow> string" where
  "int_to_str i = (if i < 0 then CHR ''-'' # nat_to_str (nat (- i)) else nat_to_str (nat i))"

subsection \<open>\<^verbatim>\<open>pd.get_dummies\<close>\<close>

text \<open>
  \<^verbatim>\<open>_get_dummies_1d\<close>: the levels of a column are its distinct values in increasing
  order; there is one uint8 indicator column per level, named
  \<^verbatim>\<open>f"{prefix}_{level}"\<close>. (\<^verbatim>\<open>prefix_sep\<close>, \<^verbatim>\<open>dummy_na\<close>, \<^verbatim>\<open>drop_first\<close> and
  \<^verbatim>\<open>dtype\<close> keep their defaults in the notebook.)
\<close>

fun get_dummies_1d :: "string \<Rightarrow> 'f column \<Rightarrow> error + (string \<times> 'f column) list" where
  "get_dummies_1d prefix (Int64 xs) =
     Inr (map (\<lambda>level. (prefix @ ''_'' @ int_to_str level,
                        UInt8 (map (\<lambda>x. if x = level then 1 else 0) xs)))
              (sort (remdups xs)))"
| "get_dummies_1d prefix (UInt8 xs) =
     Inr (map (\<lambda>level. (prefix @ ''_'' @ nat_to_str (unat level),
                        UInt8 (map (\<lambda>x. if x = level then 1 else 0) xs)))
              (sort (remdups xs)))"
| "get_dummies_1d prefix (Float64 xs) =
     Inl (Outside_model ''get_dummies on a float64 column'')"

text \<open>
  \<^verbatim>\<open>pd.get_dummies(data, columns=columns)\<close>: \<^verbatim>\<open>data[columns]\<close> raises
  \<^verbatim>\<open>KeyError\<close> for a missing name; the result is a new frame made of the columns of
  the argument that are not encoded, followed by the dummies of each encoded column in the
  order of \<open>columns\<close>. The argument frame is not modified.
\<close>

definition get_dummies :: "'f frame \<Rightarrow> string list \<Rightarrow> error + 'f frame" where
  "get_dummies df columns =
     and_then (map_err (getitem df) columns) (\<lambda>data_to_encode.
     and_then (map_err (\<lambda>(name, c). get_dummies_1d name c) (zip columns data_to_encode)) (\<lambda>dummies.
       Inr \<lparr>nrows = nrows df,
            cols = filter (\<lambda>(name, c). name \<notin> set columns) (cols df) @ concat dummies\<rparr>))"

subsection \<open>Row selection and display\<close>

text \<open>
  \<^verbatim>\<open>df.query("name == k")\<close> with an integer literal \<open>k\<close>: the rows where the column
  equals \<open>k\<close>, as a new frame. An unknown column name is an undefined variable of the
  query expression.
\<close>

fun eq_mask :: "'f column \<Rightarrow> int \<Rightarrow> error + bool list" where
  "eq_mask (Int64 xs) k = Inr (map (\<lambda>x. x = k) xs)"
| "eq_mask (UInt8 xs) k = Inr (map (\<lambda>x. uint x = k) xs)"
| "eq_mask (Float64 xs) k = Inl (Outside_model ''comparison of a float64 column'')"

definition keep_rows :: "bool list \<Rightarrow> 'a list \<Rightarrow> 'a list" where
  "keep_rows flags xs = map snd (filter fst (zip flags xs))"

fun map_col :: "(int list \<Rightarrow> int list) \<Rightarrow> ('f float64 list \<Rightarrow> 'f float64 list) \<Rightarrow>
    (8 word list \<Rightarrow> 8 word list) \<Rightarrow> 'f column \<Rightarrow> 'f column" where
  "map_col f g h (Int64 xs) = Int64 (f xs)"
| "map_col f g h (Float64 xs) = Float64 (g xs)"
| "map_col f g h (UInt8 xs) = UInt8 (h xs)"

definition query_eq :: "'f frame \<Rightarrow> string \<Rightarrow> int \<Rightarrow> error + 'f frame" where
  "query_eq df name k =
     (case map_of (cols df) name of
        None \<Rightarrow> Inl (NameError name)
      | Some c \<Rightarrow>
          and_then (eq_mask c k) (\<lambda>flags.
            Inr \<lparr>nrows = length (filter id flags),
                 cols = map (\<lambda>(n, c). (n, map_col (keep_rows flags) (keep_rows flags) (keep_rows flags) c))
                            (cols df)\<rparr>))"

text \<open>\<^verbatim>\<open>df[[n1, n2, ...]]\<close>: the named columns in the order asked for, or \<^verbatim>\<open>KeyError\<close>.\<close>

definition select :: "'f frame \<Rightarrow> string list \<Rightarrow> error + 'f frame" where
  "select df names =
     and_then (map_err (getitem df) names) (\<lambda>cs.
       Inr \<lparr>nrows = nrows df, cols = zip names cs\<rparr>)"

text \<open>\<^verbatim>\<open>df.head()\<close>: the first five rows.\<close>

definition head :: "'f frame \<Rightarrow> 'f frame" where
  "head df = \<lparr>nrows = min 5 (nrows df),
              cols = map (\<lambda>(n, c). (n, map_col (take 5) (take 5) (take 5) c)) (cols df)\<rparr>"

section \<open>Model formulas\<close>

text \<open>
  \<^verbatim>\<open>smf.ols(formula, data)\<close> hands the formula to patsy. The notebook's formulas use a
  small part of the formula language: a response name, \<^verbatim>\<open>~\<close>, and summands joined by
  \<^verbatim>\<open>+\<close>, a summand being \<^verbatim>\<open>1\<close>, a factor, or a product \<^verbatim>\<open>a*b\<close> of two
  factors; a factor is a column name (numeric) or \<^verbatim>\<open>C(name)\<close> (categorical).
  A term is the list of its factors; the empty list is the intercept, which patsy includes
  unless it is removed (the subset has no syntax to remove it). \<^verbatim>\<open>a*b\<close> stands for
  \<^verbatim>\<open>a + b + a:b\<close>. Terms are listed in the order written; the order of the columns
  of the design matrix is not modelled.
\<close>

datatype factor = Num string | Cat string

definition is_ident_start :: "char \<Rightarrow> bool" where
  "is_ident_start c =
     (let n = (of_char c :: nat) in (65 \<le> n \<and> n \<le> 90) \<or> (97 \<le> n \<and> n \<le> 122) \<or> n = 95)"

definition is_ident_char :: "char \<Rightarrow> bool" where
  "is_ident_char c = (is_ident_start c \<or> (let n = (of_char c :: nat) in 48 \<le> n \<and> n \<le> 57))"

definition is_ident :: "string \<Rightarrow> bool" where
  "is_ident s = (case s of [] \<Rightarrow> False | c # cs \<Rightarrow> is_ident_start c \<and> list_all is_ident_char cs)"

fun split_on :: "char \<Rightarrow> string \<Rightarrow> string list" where
  "split_on sep [] = [[]]"
| "split_on sep (c # cs) =
     (if c = sep then [] # split_on sep cs
      else (case split_on sep cs of
              [] \<Rightarrow> [[c]]
            | w # ws \<Rightarrow> (c # w) # ws))"

definition parse_factor :: "string \<Rightarrow> error + factor" where
  "parse_factor s =
     (if is_ident s then Inr (Num s)
      else if take 2 s = ''C('' \<and> drop (length s - 1) s = '')'' \<and> is_ident (butlast (drop 2 s))
      then Inr (Cat (butlast (drop 2 s)))
      else Inl (Outside_model (''formula factor '' @ s)))"

definition parse_summand :: "string \<Rightarrow> error + factor list list" where
  "parse_summand s =
     (if s = ''1'' then Inr [[]]
      else (case split_on (CHR ''*'') s of
              [a] \<Rightarrow> and_then (parse_factor a) (\<lambda>fa. Inr [[fa]])
            | [a, b] \<Rightarrow>
                and_then (parse_factor a) (\<lambda>fa.
                and_then (parse_factor b) (\<lambda>fb.
                  if fa = fb then Inl (Outside_model (''formula product '' @ s))
                  else Inr [[fa], [fb], [fa, fb]]))
            | _ \<Rightarrow> Inl (Outside_model (''formula product '' @ s))))"

definition first_occurrences :: "'a list \<Rightarrow> 'a list" where
  "first_occurrences xs = rev (remdups (rev xs))"

definition parse_formula :: "string \<Rightarrow> error + (string \<times> factor list list)" where
  "parse_formula formula =
     (case split_on (CHR ''~'') (filter (\<lambda>c. c \<noteq> CHR '' '') formula) of
        [lhs, rhs] \<Rightarrow>
          if is_ident lhs
          then and_then (map_err parse_summand (split_on (CHR ''+'') rhs)) (\<lambda>tss.
                 Inr (lhs, first_occurrences ([] # concat tss)))
          else Inl (Outside_model (''formula response '' @ lhs))
      | _ \<Rightarrow> Inl (Outside_model ''formula without exactly one ~''))"

fun factor_name :: "factor \<Rightarrow> string" where
  "factor_name (Num v) = v"
| "factor_name (Cat v) = v"

definition formula_vars :: "string \<Rightarrow> factor list list \<Rightarrow> string list" where
  "formula_vars y ts = y # map factor_name (concat ts)"

section \<open>The regression calls\<close>

text \<open>
  \<^verbatim>\<open>smf.ols(formula, data)\<close> builds the model. Every variable of the formula is looked
  up in the frame (a name that is not a column is then looked up in the Python namespace,
  where the notebook binds none of the names its formulas use, and patsy reports the
  unknown name as an error). The rows in which one of the variables is missing are dropped
  (\<^verbatim>\<open>missing='drop'\<close>, the default of the formula interface); an infinity is not a
  missing value and stays. The library then looks for the constant among the regressors by
  taking the maximum of every column of the design matrix:
  \<^item> with no row left, the maximum of an empty array raises \<^verbatim>\<open>ValueError\<close>
    (``zero-size array to reduction operation maximum which has no identity'');
  \<^item> a numeric regressor holding \<open>+inf\<close> makes a maximum infinite and raises
    \<^verbatim>\<open>MissingDataError\<close> (``exog contains inf or nans'').
  What the library does with any other infinity among the rows kept is not modelled.
  Otherwise the model is built; \<open>nobs\<close> is the number of rows kept, and
  \<open>data_frame\<close> is the frame the model was given (\<^verbatim>\<open>model.data.frame\<close>, a reference
  to the frame itself, hence an address).

  The estimates that \<^verbatim>\<open>fit()\<close> computes are floating-point results of the statistics
  library and are not modelled: a result only records the model it was fitted from.
\<close>

record ols_model =
  formula :: string
  data_frame :: nat
  endog_name :: string
  terms :: "factor list list"
  nobs :: nat

fun missing_at :: "'f column \<Rightarrow> nat \<Rightarrow> bool" where
  "missing_at (Float64 xs) i = (i < length xs \<and> xs ! i = NaN)"
| "missing_at (Int64 xs) i = False"
| "missing_at (UInt8 xs) i = False"

fun posinf_at :: "'f column \<Rightarrow> nat \<Rightarrow> bool" where
  "posinf_at (Float64 xs) i = (i < length xs \<and> xs ! i = PosInf)"
| "posinf_at (Int64 xs) i = False"
| "posinf_at (UInt8 xs) i = False"

fun neginf_at :: "'f column \<Rightarrow> nat \<Rightarrow> bool" where
  "neginf_at (Float64 xs) i = (i < length xs \<and> xs ! i = NegInf)"
| "neginf_at (Int64 xs) i = False"
| "neginf_at (UInt8 xs) i = False"

definition lookup_var :: "'f frame \<Rightarrow> string \<Rightarrow> error + 'f column" where
  "lookup_var df v =
     (case map_of (cols df) v of
        None \<Rightarrow> Inl (PatsyError v)
      | Some c \<Rightarrow> Inr c)"

text \<open>The rows patsy keeps: those in which none of the variables is missing.\<close>

definition kept_rows :: "'f frame \<Rightarrow> 'f column list \<Rightarrow> nat list" where
  "kept_rows df used = filter (\<lambda>i. \<not> list_ex (\<lambda>c. missing_at c i) used) [0..<nrows df]"

text \<open>The names of the numeric factors of the terms: the numeric regressors.\<close>

fun numeric_name :: "factor \<Rightarrow> string list" where
  "numeric_name (Num v) = [v]"
| "numeric_name (Cat v) = []"

definition numeric_vars :: "factor list list \<Rightarrow> string list" where
  "numeric_vars ts = concat (map numeric_name (concat ts))"

definition ols :: "string \<Rightarrow> nat \<Rightarrow> 'f frame \<Rightarrow> error + ols_model" where
  "ols fml addr df =
     and_then (parse_formula fml) (\<lambda>(y, ts).
     and_then (map_err (lookup_var df) (formula_vars y ts)) (\<lambda>used.
     and_then (map_err (lookup_var df) (numeric_vars ts)) (\<lambda>exog.
       if kept_rows df used = []
       then Inl (ValueError ''zero-size array to reduction operation maximum which has no identity'')
       else if list_ex (\<lambda>c. list_ex (posinf_at c) (kept_rows df used)) exog
       then Inl (MissingDataError ''exog contains inf or nans'')
       else if list_ex (\<lambda>c. list_ex (\<lambda>i. posinf_at c i \<or> neginf_at c i) (kept_rows df used)) used
       then Inl (Outside_model ''regression on infinite values'')
       else Inr \<lparr>formula = fml, data_frame = addr, endog_name = y, terms = ts,
                 nobs = length (kept_rows df used)\<rparr>)))"

datatype ols_results = Results ols_model

definition fit :: "ols_model \<Rightarrow> ols_results" where
  "fit m = Results m"

text \<open>
  \<^verbatim>\<open>results.params[name]\<close>. The coefficient of the intercept is named
  \<^verbatim>\<open>Intercept\<close> and that of a numeric term has the name of its column. The names of
  the coded columns of a categorical term depend on its levels and are not modelled. The
  value is a float of the library; the model keeps it symbolic.
\<close>

datatype estimate =
    Param ols_model string
  | Plus estimate estimate
  | Minus estimate estimate

definition params :: "ols_results \<Rightarrow> string \<Rightarrow> error + estimate" where
  "params r name =
     (case r of Results m \<Rightarrow>
        if name = ''Intercept'' \<or> [Num name] \<in> set (terms m) then Inr (Param m name)
        else if list_ex (list_ex (\<lambda>f. case f of Cat v \<Rightarrow> True | Num v \<Rightarrow> False)) (terms m)
        then Inl (Outside_model ''params of a model with categorical terms'')
        else Inl (KeyError name))"

section \<open>The notebook\<close>

text \<open>
  The state of the kernel: a heap of frames (an address is a position in the list), the
  four variables the notebook assigns, and the effects so far. \<open>data\<close> and
  \<open>data_in\<close> hold addresses, since \<^verbatim>\<open>data_in["..."] = ...\<close> updates a frame in
  place. Models and results are never updated and are held by value.
\<close>

datatype 'f item =
    Head "'f frame"
  | Describe "'f frame"
  | Summary ols_results
  | Value estimate

datatype 'f event =
    File_read string
  | File_write string
  | Output "'f item"

record 'f state =
  heap :: "'f frame list"
  data :: "nat option"
  data_in :: "nat option"
  model_eq :: "ols_model option"
  model_est :: "ols_results option"
  out :: "'f event list"

definition init :: "'f state" where
  "init = \<lparr>heap = [], data = None, data_in = None, model_eq = None, model_est = None, out = []\<rparr>"

definition frame_at :: "'f state \<Rightarrow> string \<Rightarrow> nat option \<Rightarrow> error + nat \<times> 'f frame" where
  "frame_at st name v =
     (case v of
        None \<Rightarrow> Inl (NameError name)
      | Some a \<Rightarrow> if a < length (heap st) then Inr (a, heap st ! a) else Inl (NameError name))"

definition emit :: "'f event \<Rightarrow> 'f state \<Rightarrow> 'f state" where
  "emit e st = st\<lparr>out := out st @ [e]\<rparr>"

subsection \<open>Statements\<close>

text \<open>\<^verbatim>\<open>print(<frame>.query("female == k")[["wage","educ","exper","tenure"]].describe())\<close>\<close>

definition print_describe :: "int \<Rightarrow> 'f state \<Rightarrow> error + 'f state" where
  "print_describe k st =
     and_then (frame_at st ''data'' (data st)) (\<lambda>(a, df).
     and_then (query_eq df ''female'' k) (\<lambda>q.
     and_then (select q [''wage'', ''educ'', ''exper'', ''tenure'']) (\<lambda>sel.
       Inr (emit (Output (Describe sel)) st))))"

text \<open>
  \<^verbatim>\<open>model_eq = smf.ols(formula = fml, data = <frame>)\<close>,
  \<^verbatim>\<open>model_est = model_eq.fit()\<close> and \<^verbatim>\<open>print(model_est.summary())\<close>.
  The summary table runs the Jarque-Bera test on the residuals, which raises
  \<^verbatim>\<open>ValueError\<close> (``resids must contain at least 2 elements'') for a model of fewer
  than two observations; with two or more the table is produced (its numbers, some of them
  possibly NaN or infinite, are not modelled).
\<close>

definition assign_ols :: "string \<Rightarrow> string \<Rightarrow> nat option \<Rightarrow> 'f state \<Rightarrow> error + 'f state" where
  "assign_ols fml name v st =
     and_then (frame_at st name v) (\<lambda>(a, df).
     and_then (ols fml a df) (\<lambda>m.
       Inr (st\<lparr>model_eq := Some m\<rparr>)))"

definition assign_fit :: "'f state \<Rightarrow> error + 'f state" where
  "assign_fit st =
     (case model_eq st of
        None \<Rightarrow> Inl (NameError ''model_eq'')
      | Some m \<Rightarrow> Inr (st\<lparr>model_est := Some (fit m)\<rparr>))"

definition summary :: "ols_results \<Rightarrow> error + ols_results" where
  "summary r =
     (case r of Results m \<Rightarrow>
        if nobs m < 2 then Inl (ValueError ''resids must contain at least 2 elements'')
        else Inr r)"

definition print_summary :: "'f state \<Rightarrow> error + 'f state" where
  "print_summary st =
     (case model_est st of
        None \<Rightarrow> Inl (NameError ''model_est'')
      | Some r \<Rightarrow> and_then (summary r) (\<lambda>tbl. Inr (emit (Output (Summary tbl)) st)))"

definition regress :: "string \<Rightarrow> string \<Rightarrow> nat option \<Rightarrow> 'f state \<Rightarrow> error + 'f state" where
  "regress fml name v st =
     and_then (assign_ols fml name v st) (\<lambda>st.
     and_then (assign_fit st) print_summary)"

text \<open>\<^verbatim>\<open>model_est.params[name]\<close> as an expression.\<close>

definition param :: "'f state \<Rightarrow> string \<Rightarrow> error + estimate" where
  "param st name =
     (case model_est st of
        None \<Rightarrow> Inl (NameError ''model_est'')
      | Some r \<Rightarrow> params r name)"

text \<open>
  \<^verbatim>\<open>data_in[target] = data_in[a]*data_in[b]\<close>: what the statement does to the frame
  (\<open>set_product\<close>: the two lookups, the product, the assignment), and the statement
  itself, which updates the frame that \<open>data_in\<close> is bound to in place.
\<close>

definition set_product :: "'f frame \<Rightarrow> string \<Rightarrow> string \<Rightarrow> string \<Rightarrow> error + 'f frame" where
  "set_product df target a b =
     and_then (getitem df a) (\<lambda>x.
     and_then (getitem df b) (\<lambda>y.
     and_then (mul_series x y) (\<lambda>z.
       Inr (setitem df target z))))"

definition assign_product :: "string \<Rightarrow> string \<Rightarrow> string \<Rightarrow> 'f state \<Rightarrow> error + 'f state" where
  "assign_product target a b st =
     and_then (frame_at st ''data_in'' (data_in st)) (\<lambda>(addr, df).
     and_then (set_product df target a b) (\<lambda>df'.
       Inr (st\<lparr>heap := (heap st)[addr := df']\<rparr>)))"

text \<open>\<^verbatim>\<open>print(data_in.head())\<close>\<close>

definition print_head_data_in :: "'f state \<Rightarrow> error + 'f state" where
  "print_head_data_in st =
     and_then (frame_at st ''data_in'' (data_in st)) (\<lambda>(a, df).
       Inr (emit (Output (Head (head df))) st))"

subsection \<open>Code cells\<close>

text \<open>
  One definition per code cell, numbered by the cell's position in the notebook. The cell
  of imports (cell 3) has no effect on the state. The file system is a parameter: \<open>fs\<close>
  gives, for a path, the table that \<^verbatim>\<open>pd.read_csv\<close> parses from the file there, if
  there is one.
\<close>

definition cell_3 :: "'f state \<Rightarrow> error + 'f state" where
  "cell_3 st = Inr st"

text \<open>\<^verbatim>\<open>data = pd.read_csv("WAGE.csv")\<close>\<close>

definition cell_5 :: "(string \<Rightarrow> 'f frame option) \<Rightarrow> 'f state \<Rightarrow> error + 'f state" where
  "cell_5 fs st =
     (case fs ''WAGE.csv'' of
        None \<Rightarrow> Inl (FileNotFoundError ''WAGE.csv'')
      | Some df \<Rightarrow>
          Inr (emit (File_read ''WAGE.csv'')
                 (st\<lparr>heap := heap st @ [df], data := Some (length (heap st))\<rparr>)))"

text \<open>\<^verbatim>\<open>data.head()\<close>\<close>

definition cell_7 :: "'f state \<Rightarrow> error + 'f state" where
  "cell_7 st =
     and_then (frame_at st ''data'' (data st)) (\<lambda>(a, df).
       Inr (emit (Output (Head (head df))) st))"

definition cell_9 :: "'f state \<Rightarrow> error + 'f state" where
  "cell_9 st = print_describe 1 st"

definition cell_11 :: "'f state \<Rightarrow> error + 'f state" where
  "cell_11 st = print_describe 0 st"

definition cell_14 :: "'f state \<Rightarrow> error + 'f state" where
  "cell_14 st = regress ''wage ~ 1 + female + educ + exper + tenure'' ''data'' (data st) st"

text \<open>\<^verbatim>\<open>model_est.params["female"]\<close>\<close>

definition cell_16 :: "'f state \<Rightarrow> error + 'f state" where
  "cell_16 st =
     and_then (param st ''female'') (\<lambda>x.
       Inr (emit (Output (Value x)) st))"

definition cell_19 :: "'f state \<Rightarrow> error + 'f state" where
  "cell_19 st = regress ''wage ~ 1 + female'' ''data'' (data st) st"

text \<open>\<^verbatim>\<open>model_est.params['Intercept'] + model_est.params['female']\<close>\<close>

definition cell_21 :: "'f state \<Rightarrow> error + 'f state" where
  "cell_21 st =
     and_then (param st ''Intercept'') (\<lambda>x.
     and_then (param st ''female'') (\<lambda>y.
       Inr (emit (Output (Value (Plus x y))) st)))"

text \<open>
  \<^verbatim>\<open>data_in = pd.get_dummies(data, columns=['female','married'])\<close> and
  \<^verbatim>\<open>print(data_in.head())\<close>. The new frame gets a fresh address.
\<close>

definition cell_25 :: "'f state \<Rightarrow> error + 'f state" where
  "cell_25 st =
     and_then (frame_at st ''data'' (data st)) (\<lambda>(a, df).
     and_then (get_dummies df [''female'', ''married'']) (\<lambda>d.
       print_head_data_in (st\<lparr>heap := heap st @ [d], data_in := Some (length (heap st))\<rparr>)))"

definition cell_26 :: "'f state \<Rightarrow> error + 'f state" where
  "cell_26 st =
     and_then (assign_product ''marrfem'' ''female_1'' ''married_1'' st) (\<lambda>st.
     and_then (assign_product ''marrmale'' ''female_0'' ''married_1'' st) (\<lambda>st.
     and_then (assign_product ''singfem'' ''female_1'' ''married_0'' st)
       print_head_data_in))"

definition cell_28 :: "'f state \<Rightarrow> error + 'f state" where
  "cell_28 st =
     regress ''lwage ~ 1 + marrmale + marrfem + singfem + educ + exper + expersq + tenure + tenursq''
       ''data_in'' (data_in st) st"

text \<open>\<^verbatim>\<open>model_est.params["singfem"] - model_est.params["marrfem"]\<close>\<close>

definition cell_30 :: "'f state \<Rightarrow> error + 'f state" where
  "cell_30 st =
     and_then (param st ''singfem'') (\<lambda>x.
     and_then (param st ''marrfem'') (\<lambda>y.
       Inr (emit (Output (Value (Minus x y))) st)))"

definition cell_33 :: "'f state \<Rightarrow> error + 'f state" where
  "cell_33 st =
     and_then (assign_product ''singmale'' ''female_0'' ''married_0'' st) (\<lambda>st.
       regress ''lwage ~ 1 + marrmale + singfem + singmale + educ + exper + expersq + tenure + tenursq''
         ''data_in'' (data_in st) st)"

definition cell_36 :: "'f state \<Rightarrow> error + 'f state" where
  "cell_36 st =
     regress ''lwage ~ 1 + C(female)*C(married) + educ + exper + expersq + tenure + tenursq''
       ''data'' (data st) st"

definition cell_38 :: "'f state \<Rightarrow> error + 'f state" where
  "cell_38 st =
     regress ''lwage ~ 1 + C(female)*educ + exper + expersq + tenure + tenursq''
       ''data'' (data st) st"

text \<open>Running the cells from top to bottom; a cell that raises stops the run.\<close>

primrec run_cells :: "('f state \<Rightarrow> error + 'f state) list \<Rightarrow> 'f state \<Rightarrow> error + 'f state" where
  "run_cells [] st = Inr st"
| "run_cells (c # cs) st = and_then (c st) (run_cells cs)"

definition notebook :: "(string \<Rightarrow> 'f frame option) \<Rightarrow> ('f state \<Rightarrow> error + 'f state) list" where
  "notebook fs =
     [cell_3, cell_5 fs, cell_7, cell_9, cell_11, cell_14, cell_16, cell_19, cell_21,
      cell_25, cell_26, cell_28, cell_30, cell_33, cell_36, cell_38]"

definition run_notebook :: "(string \<Rightarrow> 'f frame option) \<Rightarrow> error + 'f state" where
  "run_notebook fs = run_cells (notebook fs) init"

section \<open>The wage table and what is observed of a run\<close>

text \<open>
  \<^verbatim>\<open>WAGE.csv\<close> itself is not part of the repository, so the table is a parameter. The
  notebook's data description lists its 24 columns and says that \<open>female\<close> and
  \<open>married\<close> are indicators (``=1 if female'', ``=1 if married''); the printed frames
  show that both values of each occur. \<open>wage_table\<close> asks for exactly that: the column
  names, columns as long as the index, and the two indicator columns being integer columns
  whose set of values is \<open>{0, 1}\<close>.
\<close>

definition wage_columns :: "string list" where
  "wage_columns =
     [''wage'', ''educ'', ''exper'', ''tenure'', ''nonwhite'', ''female'', ''married'',
      ''numdep'', ''smsa'', ''northcen'', ''south'', ''west'', ''construc'', ''ndurman'',
      ''trcommpu'', ''trade'', ''services'', ''profserv'', ''profocc'', ''clerocc'',
      ''servocc'', ''lwage'', ''expersq'', ''tenursq'']"

definition binary_column :: "'f frame \<Rightarrow> string \<Rightarrow> bool" where
  "binary_column df name =
     (case map_of (cols df) name of
        Some (Int64 xs) \<Rightarrow> set xs = {0, 1}
      | _ \<Rightarrow> False)"

definition wage_table :: "'f frame \<Rightarrow> bool" where
  "wage_table df \<longleftrightarrow>
     map fst (cols df) = wage_columns \<and>
     list_all (\<lambda>(n, c). col_len c = nrows df) (cols df) \<and>
     binary_column df ''female'' \<and> binary_column df ''married''"

text \<open>A table without missing values: no float column holds a NaN.\<close>

fun no_missing :: "'f column \<Rightarrow> bool" where
  "no_missing (Float64 xs) = (NaN \<notin> set xs)"
| "no_missing (Int64 xs) = True"
| "no_missing (UInt8 xs) = True"

definition complete_table :: "'f frame \<Rightarrow> bool" where
  "complete_table df = list_all (\<lambda>(n, c). no_missing c) (cols df)"

text \<open>A table of finite numbers: every float cell is a finite float.\<close>

fun is_fin :: "'f float64 \<Rightarrow> bool" where
  "is_fin (Fin x) = True"
| "is_fin PosInf = False"
| "is_fin NegInf = False"
| "is_fin NaN = False"

fun finite_col :: "'f column \<Rightarrow> bool" where
  "finite_col (Float64 xs) = list_all is_fin xs"
| "finite_col (Int64 xs) = True"
| "finite_col (UInt8 xs) = True"

definition all_finite :: "'f frame \<Rightarrow> bool" where
  "all_finite df = list_all (\<lambda>(n, c). finite_col c) (cols df)"

text \<open>The frame a variable is bound to, and single cells of a frame.\<close>

definition var_frame :: "'f state \<Rightarrow> nat option \<Rightarrow> 'f frame option" where
  "var_frame st v =
     (case v of
        None \<Rightarrow> None
      | Some a \<Rightarrow> if a < length (heap st) then Some (heap st ! a) else None)"

definition u8_cell :: "'f frame \<Rightarrow> string \<Rightarrow> nat \<Rightarrow> 8 word option" where
  "u8_cell df name i =
     (case map_of (cols df) name of
        Some (UInt8 xs) \<Rightarrow> if i < length xs then Some (xs ! i) else None
      | _ \<Rightarrow> None)"

definition int_cell :: "'f frame \<Rightarrow> string \<Rightarrow> nat \<Rightarrow> int option" where
  "int_cell df name i =
     (case map_of (cols df) name of
        Some (Int64 xs) \<Rightarrow> if i < length xs then Some (xs ! i) else None
      | _ \<Rightarrow> None)"

text \<open>
  The file-system events of a run, the models whose summary was printed, and the numbers
  of observations these summaries report when the notebook runs to its end.
\<close>

fun is_file_event :: "'f event \<Rightarrow> bool" where
  "is_file_event (File_read p) = True"
| "is_file_event (File_write p) = True"
| "is_file_event (Output x) = False"

definition file_events :: "'f event list \<Rightarrow> 'f event list" where
  "file_events es = filter is_file_event es"

fun fitted :: "'f event list \<Rightarrow> ols_model list" where
  "fitted [] = []"
| "fitted (Output (Summary (Results m)) # es) = m # fitted es"
| "fitted (e # es) = fitted es"


text \<open>
  Row \<open>i\<close> of the frame \<open>d\<close> built from the table \<open>t\<close>: the four group columns are
  0 or 1, exactly one of them is 1, and each marks the group it is named after.
\<close>

definition group_row :: "'f frame \<Rightarrow> 'f frame \<Rightarrow> nat \<Rightarrow> bool" where
  "group_row t d i =
     (case (int_cell t ''female'' i, int_cell t ''married'' i,
            u8_cell d ''marrmale'' i, u8_cell d ''marrfem'' i,
            u8_cell d ''singfem'' i, u8_cell d ''singmale'' i) of
        (Some f, Some m, Some marrmale, Some marrfem, Some singfem, Some singmale) \<Rightarrow>
          marrmale \<in> {0, 1} \<and> marrfem \<in> {0, 1} \<and> singfem \<in> {0, 1} \<and> singmale \<in> {0, 1} \<and>
          unat marrmale + unat marrfem + unat singfem + unat singmale = 1 \<and>
          (marrmale = 1 \<longleftrightarrow> f = 0 \<and> m = 1) \<and>
          (marrfem = 1 \<longleftrightarrow> f = 1 \<and> m = 1) \<and>
          (singfem = 1 \<longleftrightarrow> f = 1 \<and> m = 0) \<and>
          (singmale = 1 \<longleftrightarrow> f = 0 \<and> m = 0)
      | _ \<Rightarrow> False)"

text \<open>
  Row \<open>i\<close> of the dummies of \<open>female\<close> and \<open>married\<close> in \<open>d\<close> against the
  original columns in \<open>t\<close>.
\<close>

definition dummies_row :: "'f frame \<Rightarrow> 'f frame \<Rightarrow> nat \<Rightarrow> bool" where
  "dummies_row t d i =
     (case (int_cell t ''female'' i, int_cell t ''married'' i,
            u8_cell d ''female_0'' i, u8_cell d ''female_1'' i,
            u8_cell d ''married_0'' i, u8_cell d ''married_1'' i) of
        (Some f, Some m, Some female_0, Some female_1, Some married_0, Some married_1) \<Rightarrow>
          uint female_1 = f \<and> uint female_0 = 1 - f \<and>
          uint married_1 = m \<and> uint married_0 = 1 - m \<and>
          uint female_0 + uint female_1 = 1 \<and> uint married_0 + uint married_1 = 1
      | _ \<Rightarrow> False)"

text \<open>
  A concrete table of the schema: the five rows that \<^verbatim>\<open>data.head()\<close> prints in the
  notebook (the two industry columns the printout elides are filled with 0), with the
  decimal values of the float columns as rationals.
\<close>

definition example_table :: "rat frame" where
  "example_table = \<lparr>nrows = 5, cols =
    [(''wage'', Float64 [Fin (31/10), Fin (81/25), Fin 3, Fin 6, Fin (53/10)]),
     (''educ'', Int64 [11, 12, 11, 8, 12]),
     (''exper'', Int64 [2, 22, 2, 44, 7]),
     (''tenure'', Int64 [0, 2, 0, 28, 2]),
     (''nonwhite'', Int64 [0, 0, 0, 0, 0]),
     (''female'', Int64 [1, 1, 0, 0, 0]),
     (''married'', Int64 [0, 1, 0, 1, 1]),
     (''numdep'', Int64 [2, 3, 2, 0, 1]),
     (''smsa'', Int64 [1, 1, 0, 1, 0]),
     (''northcen'', Int64 [0, 0, 0, 0, 0]),
     (''south'', Int64 [0, 0, 0, 0, 0]),
     (''west'', Int64 [1, 1, 1, 1, 1]),
     (''construc'', Int64 [0, 0, 0, 0, 0]),
     (''ndurman'', Int64 [0, 0, 0, 0, 0]),
     (''trcommpu'', Int64 [0, 0, 0, 0, 0]),
     (''trade'', Int64 [0, 0, 1, 0, 0]),
     (''services'', Int64 [0, 1, 0, 0, 0]),
     (''profserv'', Int64 [0, 0, 0, 0, 0]),
     (''profocc'', Int64 [0, 0, 0, 0, 0]),
     (''clerocc'', Int64 [0, 0, 0, 1, 0]),
     (''servocc'', Int64 [0, 1, 0, 0, 0]),
     (''lwage'', Float64 [Fin (1131402/1000000), Fin (1175573/1000000),
        Fin (1098612/1000000), Fin (1791760/1000000), Fin (1667707/1000000)]),
     (''expersq'', Int64 [4, 484, 4, 1936, 49]),
     (''tenursq'', Int64 [0, 4, 0, 784, 4])]\<rparr>"

definition example_fs :: "string \<Rightarrow> rat frame option" where
  "example_fs path = (if path = ''WAGE.csv'' then Some example_table else None)"



section \<open>Relations between states, for the proofs\<close>

text \<open>
  \<open>same_frames\<close>: a step changed neither the heap, nor what \<open>data\<close> and
  \<open>data_in\<close> are bound to, nor the file-system events. \<open>display_only\<close>: nor has it
  printed the summary of a model.
\<close>

definition same_frames :: "'f state \<Rightarrow> 'f state \<Rightarrow> bool" where
  "same_frames st st' \<longleftrightarrow>
     heap st' = heap st \<and> data st' = data st \<and> data_in st' = data_in st \<and>
     file_events (out st') = file_events (out st)"

definition display_only :: "'f state \<Rightarrow> 'f state \<Rightarrow> bool" where
  "display_only st st' \<longleftrightarrow> same_frames st st' \<and> fitted (out st') = fitted (out st)"

text \<open>
  \<open>shape\<close>: the frames on the heap, in order, with \<open>data\<close> bound to the first;
  what \<open>data_in\<close> is bound to; the models whose summaries were printed so far; and the
  read of \<^verbatim>\<open>WAGE.csv\<close> as the only file-system event.
\<close>

definition shape :: "'f state \<Rightarrow> 'f frame list \<Rightarrow> nat option \<Rightarrow> ols_model list \<Rightarrow> bool" where
  "shape st frames d_in models \<longleftrightarrow>
     heap st = frames \<and> data st = Some 0 \<and> data_in st = d_in \<and>
     fitted (out st) = models \<and> file_events (out st) = [File_read ''WAGE.csv'']"

text \<open>
  What every cell after the load keeps: \<open>data\<close> is bound to the table that was read,
  \<open>data_in\<close> is not bound to the same frame, and the only file-system event so far is
  the read of \<^verbatim>\<open>WAGE.csv\<close>.
\<close>

definition data_kept :: "'f frame \<Rightarrow> 'f state \<Rightarrow> bool" where
  "data_kept t st \<longleftrightarrow>
     var_frame st (data st) = Some t \<and> data_in st \<noteq> data st \<and>
     file_events (out st) = [File_read ''WAGE.csv'']"

section \<open>What a run that succeeds looks like\<close>

text \<open>
  Each statement is inverted: if it returns a state, the state is the one before it with a
  known change. \<open>prefix_14_Inr\<close> puts the cells up to the last assignment to
  \<open>data_in\<close> together: the frames are the loaded table and the frame built from it by
  \<^verbatim>\<open>get_dummies\<close> and the four products, and every model printed comes from an
  \<open>ols\<close> call that succeeded on one of them with at least two observations.
\<close>

lemma and_then_Inr: "and_then m f = Inr y \<longleftrightarrow> (\<exists>x. m = Inr x \<and> f x = Inr y)"
  by (cases m) (simp_all add: and_then_def)

lemma and_then_left [simp]: "and_then (Inr x) f = f x" "and_then (Inl e) f = Inl e"
  by (simp_all add: and_then_def)

lemmas cell_defs = cell_3_def cell_5_def cell_7_def cell_9_def cell_11_def cell_14_def cell_16_def
  cell_19_def cell_21_def cell_25_def cell_26_def cell_28_def cell_30_def cell_33_def cell_36_def cell_38_def

lemma regress_Inr:
  "regress fml name v st = Inr st' \<longleftrightarrow>
     (\<exists>a df m. frame_at st name v = Inr (a, df) \<and> ols fml a df = Inr m \<and> 2 \<le> nobs m \<and>
        st' = st\<lparr>model_eq := Some m, model_est := Some (Results m),
                 out := out st @ [Output (Summary (Results m))]\<rparr>)"
  (is "?lhs \<longleftrightarrow> ?rhs")
proof
  assume ?lhs
  then show ?rhs
    by (auto simp: regress_def assign_ols_def assign_fit_def print_summary_def summary_def fit_def
        emit_def and_then_Inr split: option.splits if_splits)
next
  assume ?rhs
  then show ?lhs
    by (auto simp: regress_def assign_ols_def assign_fit_def print_summary_def summary_def fit_def
        emit_def)
qed

lemma assign_product_Inr:
  "assign_product target a b st = Inr st' \<longleftrightarrow>
     (\<exists>addr df df'. frame_at st ''data_in'' (data_in st) = Inr (addr, df) \<and>
        set_product df target a b = Inr df' \<and> st' = st\<lparr>heap := (heap st)[addr := df']\<rparr>)"
  by (auto simp: assign_product_def and_then_Inr)

lemma fitted_append: "fitted (es @ fs) = fitted es @ fitted fs"
  by (induction es rule: fitted.induct) simp_all

lemma file_events_append: "file_events (es @ fs) = file_events es @ file_events fs"
  by (simp add: file_events_def)

lemma cell_7_display: "cell_7 st = Inr st' \<Longrightarrow> display_only st st'"
  by (auto simp: cell_7_def emit_def and_then_Inr display_only_def same_frames_def
      fitted_append file_events_append file_events_def)

lemma print_describe_display: "print_describe k st = Inr st' \<Longrightarrow> display_only st st'"
  by (auto simp: print_describe_def emit_def and_then_Inr display_only_def same_frames_def
      fitted_append file_events_append file_events_def)

lemma cell_16_display: "cell_16 st = Inr st' \<Longrightarrow> display_only st st'"
  by (auto simp: cell_16_def emit_def and_then_Inr display_only_def same_frames_def
      fitted_append file_events_append file_events_def)

lemma cell_21_display: "cell_21 st = Inr st' \<Longrightarrow> display_only st st'"
  by (auto simp: cell_21_def emit_def and_then_Inr display_only_def same_frames_def
      fitted_append file_events_append file_events_def)

lemma cell_30_display: "cell_30 st = Inr st' \<Longrightarrow> display_only st st'"
  by (auto simp: cell_30_def emit_def and_then_Inr display_only_def same_frames_def
      fitted_append file_events_append file_events_def)

lemma print_head_data_in_display: "print_head_data_in st = Inr st' \<Longrightarrow> display_only st st'"
  by (auto simp: print_head_data_in_def emit_def and_then_Inr display_only_def same_frames_def
      fitted_append file_events_append file_events_def)

lemma regress_fit:
  assumes "regress fml name v st = Inr st'"
  obtains a df m where "frame_at st name v = Inr (a, df)" "ols fml a df = Inr m" "2 \<le> nobs m"
    "same_frames st st'" "fitted (out st') = fitted (out st) @ [m]"
  using assms unfolding regress_Inr
  by (auto simp: same_frames_def fitted_append file_events_append file_events_def)

lemma cell_5_load:
  assumes "cell_5 fs init = Inr st"
  obtains t where "fs ''WAGE.csv'' = Some t" "heap st = [t]" "data st = Some 0" "data_in st = None"
    "fitted (out st) = []" "file_events (out st) = [File_read ''WAGE.csv'']"
  using assms
  by (auto simp: cell_5_def init_def emit_def file_events_def split: option.splits)

lemma cell_25_dummies:
  assumes "cell_25 st = Inr st'"
  obtains a df d where "frame_at st ''data'' (data st) = Inr (a, df)"
    "get_dummies df [''female'', ''married''] = Inr d"
    "heap st' = heap st @ [d]" "data st' = data st" "data_in st' = Some (length (heap st))"
    "fitted (out st') = fitted (out st)" "file_events (out st') = file_events (out st)"
proof -
  from assms obtain a df d where
    at: "frame_at st ''data'' (data st) = Inr (a, df)" and
    gd: "get_dummies df [''female'', ''married''] = Inr d" and
    pr: "print_head_data_in (st\<lparr>heap := heap st @ [d], data_in := Some (length (heap st))\<rparr>) = Inr st'"
    by (auto simp: cell_25_def and_then_Inr)
  from print_head_data_in_display [OF pr] at gd show ?thesis
    by (intro that [of a df d]) (simp_all add: display_only_def same_frames_def)
qed

lemma assign_product_update:
  assumes "assign_product target a b st = Inr st'"
  obtains addr df df' where "data_in st = Some addr" "addr < length (heap st)"
    "heap st ! addr = df" "set_product df target a b = Inr df'"
    "heap st' = (heap st)[addr := df']" "data st' = data st" "data_in st' = data_in st"
    "out st' = out st"
  using assms unfolding assign_product_Inr
  by (auto simp: frame_at_def split: option.splits if_splits)

lemma shape_load:
  assumes "cell_5 fs init = Inr st"
  obtains t where "fs ''WAGE.csv'' = Some t" "shape st [t] None []"
  using cell_5_load [OF assms] by (auto simp: shape_def)

lemma shape_display: "display_only st st' \<Longrightarrow> shape st h di ms \<Longrightarrow> shape st' h di ms"
  by (simp add: display_only_def same_frames_def shape_def)

lemma shape_regress_data:
  assumes "regress fml ''data'' (data st) st = Inr st'" and "shape st (t # h) di ms"
  obtains m where "ols fml 0 t = Inr m" "2 \<le> nobs m" "shape st' (t # h) di (ms @ [m])"
proof -
  from assms(1) obtain a df m where
    "frame_at st ''data'' (data st) = Inr (a, df)" "ols fml a df = Inr m" "2 \<le> nobs m"
    "same_frames st st'" "fitted (out st') = fitted (out st) @ [m]"
    by (rule regress_fit)
  with assms(2) show ?thesis
    by (intro that [of m]) (auto simp: shape_def same_frames_def frame_at_def)
qed

lemma shape_regress_data_in:
  assumes "regress fml ''data_in'' (data_in st) st = Inr st'" and "shape st [t, d] (Some 1) ms"
  obtains m where "ols fml 1 d = Inr m" "2 \<le> nobs m" "shape st' [t, d] (Some 1) (ms @ [m])"
proof -
  from assms(1) obtain a df m where
    "frame_at st ''data_in'' (data_in st) = Inr (a, df)" "ols fml a df = Inr m" "2 \<le> nobs m"
    "same_frames st st'" "fitted (out st') = fitted (out st) @ [m]"
    by (rule regress_fit)
  with assms(2) show ?thesis
    by (intro that [of m]) (auto simp: shape_def same_frames_def frame_at_def)
qed

lemma shape_dummies:
  assumes "cell_25 st = Inr st'" and "shape st [t] None ms"
  obtains d where "get_dummies t [''female'', ''married''] = Inr d" "shape st' [t, d] (Some 1) ms"
proof -
  from assms(1) obtain a df d where
    "frame_at st ''data'' (data st) = Inr (a, df)"
    "get_dummies df [''female'', ''married''] = Inr d"
    "heap st' = heap st @ [d]" "data st' = data st" "data_in st' = Some (length (heap st))"
    "fitted (out st') = fitted (out st)" "file_events (out st') = file_events (out st)"
    by (rule cell_25_dummies)
  with assms(2) show ?thesis
    by (intro that [of d]) (auto simp: shape_def frame_at_def)
qed

lemma shape_product:
  assumes "assign_product target a b st = Inr st'" and "shape st [t, d] (Some 1) ms"
  obtains d' where "set_product d target a b = Inr d'" "shape st' [t, d'] (Some 1) ms"
proof -
  from assms(1) obtain addr df df' where
    "data_in st = Some addr" "addr < length (heap st)"
    "heap st ! addr = df" "set_product df target a b = Inr df'"
    "heap st' = (heap st)[addr := df']" "data st' = data st" "data_in st' = data_in st"
    "out st' = out st"
    by (rule assign_product_update)
  with assms(2) show ?thesis
    by (intro that [of df']) (auto simp: shape_def)
qed

lemma prefix_14_Inr:
  assumes "run_cells (take 14 (notebook fs)) init = Inr st"
  obtains t d0 d1 d2 d3 d4 m1 m2 m3 m4 where
    "fs ''WAGE.csv'' = Some t"
    "get_dummies t [''female'', ''married''] = Inr d0"
    "set_product d0 ''marrfem'' ''female_1'' ''married_1'' = Inr d1"
    "set_product d1 ''marrmale'' ''female_0'' ''married_1'' = Inr d2"
    "set_product d2 ''singfem'' ''female_1'' ''married_0'' = Inr d3"
    "set_product d3 ''singmale'' ''female_0'' ''married_0'' = Inr d4"
    "ols ''wage ~ 1 + female + educ + exper + tenure'' 0 t = Inr m1"
    "ols ''wage ~ 1 + female'' 0 t = Inr m2"
    "ols ''lwage ~ 1 + marrmale + marrfem + singfem + educ + exper + expersq + tenure + tenursq'' 1 d3 = Inr m3"
    "ols ''lwage ~ 1 + marrmale + singfem + singmale + educ + exper + expersq + tenure + tenursq'' 1 d4 = Inr m4"
    "list_all (\<lambda>m. 2 \<le> nobs m) [m1, m2, m3, m4]"
    "shape st [t, d4] (Some 1) [m1, m2, m3, m4]"
proof -
  from assms obtain s2 s3 s4 s5 s6 s7 s8 s9 s10 s11 s12 s13 where
    c5: "cell_5 fs init = Inr s2" and c7: "cell_7 s2 = Inr s3" and c9: "cell_9 s3 = Inr s4" and
    c11: "cell_11 s4 = Inr s5" and c14: "cell_14 s5 = Inr s6" and c16: "cell_16 s6 = Inr s7" and
    c19: "cell_19 s7 = Inr s8" and c21: "cell_21 s8 = Inr s9" and c25: "cell_25 s9 = Inr s10" and
    c26: "cell_26 s10 = Inr s11" and c28: "cell_28 s11 = Inr s12" and c30: "cell_30 s12 = Inr s13" and
    c33: "cell_33 s13 = Inr st"
    by (auto simp: notebook_def and_then_Inr cell_3_def)
  from c5 obtain t where t: "fs ''WAGE.csv'' = Some t" and h2: "shape s2 [t] None []"
    by (rule shape_load)
  from c7 h2 have h3: "shape s3 [t] None []"
    by (blast intro: shape_display cell_7_display)
  from c9 h3 have h4: "shape s4 [t] None []"
    unfolding cell_9_def by (blast intro: shape_display print_describe_display)
  from c11 h4 have h5: "shape s5 [t] None []"
    unfolding cell_11_def by (blast intro: shape_display print_describe_display)
  from c14 h5 obtain m1 where m1: "ols ''wage ~ 1 + female + educ + exper + tenure'' 0 t = Inr m1"
    "2 \<le> nobs m1" and h6: "shape s6 [t] None ([] @ [m1])"
    unfolding cell_14_def by (rule shape_regress_data)
  from c16 h6 have h7: "shape s7 [t] None [m1]"
    by (auto intro: shape_display cell_16_display)
  from c19 h7 obtain m2 where m2: "ols ''wage ~ 1 + female'' 0 t = Inr m2"
    "2 \<le> nobs m2" and h8: "shape s8 [t] None ([m1] @ [m2])"
    unfolding cell_19_def by (rule shape_regress_data)
  from c21 h8 have h9: "shape s9 [t] None [m1, m2]"
    by (auto intro: shape_display cell_21_display)
  from c25 h9 obtain d0 where d0: "get_dummies t [''female'', ''married''] = Inr d0"
    and h10: "shape s10 [t, d0] (Some 1) [m1, m2]"
    by (rule shape_dummies)
  from c26 obtain p1 p2 p3 where
    a1: "assign_product ''marrfem'' ''female_1'' ''married_1'' s10 = Inr p1" and
    a2: "assign_product ''marrmale'' ''female_0'' ''married_1'' p1 = Inr p2" and
    a3: "assign_product ''singfem'' ''female_1'' ''married_0'' p2 = Inr p3" and
    a4: "print_head_data_in p3 = Inr s11"
    by (auto simp: cell_26_def and_then_Inr)
  from a1 h10 obtain d1 where d1: "set_product d0 ''marrfem'' ''female_1'' ''married_1'' = Inr d1"
    and g1: "shape p1 [t, d1] (Some 1) [m1, m2]"
    by (rule shape_product)
  from a2 g1 obtain d2 where d2: "set_product d1 ''marrmale'' ''female_0'' ''married_1'' = Inr d2"
    and g2: "shape p2 [t, d2] (Some 1) [m1, m2]"
    by (rule shape_product)
  from a3 g2 obtain d3 where d3: "set_product d2 ''singfem'' ''female_1'' ''married_0'' = Inr d3"
    and g3: "shape p3 [t, d3] (Some 1) [m1, m2]"
    by (rule shape_product)
  from a4 g3 have h11: "shape s11 [t, d3] (Some 1) [m1, m2]"
    by (blast intro: shape_display print_head_data_in_display)
  from c28 h11 obtain m3 where m3: "ols ''lwage ~ 1 + marrmale + marrfem + singfem + educ + exper + expersq + tenure + tenursq'' 1 d3 = Inr m3"
    "2 \<le> nobs m3" and h12: "shape s12 [t, d3] (Some 1) ([m1, m2] @ [m3])"
    unfolding cell_28_def by (rule shape_regress_data_in)
  from c30 h12 have h13: "shape s13 [t, d3] (Some 1) [m1, m2, m3]"
    by (auto intro: shape_display cell_30_display)
  from c33 obtain p4 where
    a5: "assign_product ''singmale'' ''female_0'' ''married_0'' s13 = Inr p4" and
    r4: "regress ''lwage ~ 1 + marrmale + singfem + singmale + educ + exper + expersq + tenure + tenursq''
         ''data_in'' (data_in p4) p4 = Inr st"
    by (auto simp: cell_33_def and_then_Inr)
  from a5 h13 obtain d4 where d4: "set_product d3 ''singmale'' ''female_0'' ''married_0'' = Inr d4"
    and g4: "shape p4 [t, d4] (Some 1) [m1, m2, m3]"
    by (rule shape_product)
  from r4 g4 obtain m4 where m4: "ols ''lwage ~ 1 + marrmale + singfem + singmale + educ + exper + expersq + tenure + tenursq'' 1 d4 = Inr m4"
    "2 \<le> nobs m4" and h14: "shape st [t, d4] (Some 1) ([m1, m2, m3] @ [m4])"
    by (rule shape_regress_data_in)
  show ?thesis
    by (rule that [of t d0 d1 d2 d3 d4 m1 m2 m3 m4])
      (use t d0 d1 d2 d3 d4 m1 m2 m3 m4 h14 in simp_all)
qed

section \<open>The regression call\<close>

text \<open>
  The formulas of the notebook, parsed; and what \<open>ols\<close> returns: never more
  observations than rows, all the rows on a frame without missing values, and a model
  whenever the frame is finite, not empty and has the variables of the formula.
\<close>

lemma levels_binary: "set xs = {0, 1::int} \<Longrightarrow> sort (remdups xs) = [0, 1]"
proof -
  assume h: "set xs = {0, 1::int}"
  have "sort (remdups xs) = sorted_list_of_set (set xs)"
    by (simp add: sorted_list_of_set_sort_remdups)
  also have "\<dots> = [0, 1]" by (simp add: h)
  finally show ?thesis .
qed

lemma explicit_cols:
  assumes "map fst (xs :: (string \<times> 'c) list) = wage_columns"
  obtains c1 c2 c3 c4 c5 c6 c7 c8 c9 c10 c11 c12 c13 c14 c15 c16 c17 c18 c19 c20 c21 c22 c23 c24
  where "xs = [(''wage'', c1), (''educ'', c2), (''exper'', c3), (''tenure'', c4), (''nonwhite'', c5),
      (''female'', c6), (''married'', c7), (''numdep'', c8), (''smsa'', c9), (''northcen'', c10),
      (''south'', c11), (''west'', c12), (''construc'', c13), (''ndurman'', c14),
      (''trcommpu'', c15), (''trade'', c16), (''services'', c17), (''profserv'', c18),
      (''profocc'', c19), (''clerocc'', c20), (''servocc'', c21), (''lwage'', c22),
      (''expersq'', c23), (''tenursq'', c24)]"
  using assms unfolding wage_columns_def
  by (auto simp: map_eq_Cons_conv)

lemma parse_cell_14: "parse_formula ''wage ~ 1 + female + educ + exper + tenure'' =
  Inr (''wage'', [[], [Num ''female''], [Num ''educ''], [Num ''exper''], [Num ''tenure'']])"
  by code_simp

lemma parse_cell_19: "parse_formula ''wage ~ 1 + female'' = Inr (''wage'', [[], [Num ''female'']])"
  by code_simp

lemma parse_cell_28: "parse_formula ''lwage ~ 1 + marrmale + marrfem + singfem + educ + exper + expersq + tenure + tenursq'' =
  Inr (''lwage'', [[], [Num ''marrmale''], [Num ''marrfem''], [Num ''singfem''], [Num ''educ''],
    [Num ''exper''], [Num ''expersq''], [Num ''tenure''], [Num ''tenursq'']])"
  by code_simp

lemma parse_cell_33: "parse_formula ''lwage ~ 1 + marrmale + singfem + singmale + educ + exper + expersq + tenure + tenursq'' =
  Inr (''lwage'', [[], [Num ''marrmale''], [Num ''singfem''], [Num ''singmale''], [Num ''educ''],
    [Num ''exper''], [Num ''expersq''], [Num ''tenure''], [Num ''tenursq'']])"
  by code_simp

lemma parse_cell_36: "parse_formula ''lwage ~ 1 + C(female)*C(married) + educ + exper + expersq + tenure + tenursq'' =
  Inr (''lwage'', [[], [Cat ''female''], [Cat ''married''], [Cat ''female'', Cat ''married''],
    [Num ''educ''], [Num ''exper''], [Num ''expersq''], [Num ''tenure''], [Num ''tenursq'']])"
  by code_simp

lemma parse_cell_38: "parse_formula ''lwage ~ 1 + C(female)*educ + exper + expersq + tenure + tenursq'' =
  Inr (''lwage'', [[], [Cat ''female''], [Num ''educ''], [Cat ''female'', Num ''educ''],
    [Num ''exper''], [Num ''expersq''], [Num ''tenure''], [Num ''tenursq'']])"
  by code_simp

lemmas parse_cells = parse_cell_14 parse_cell_19 parse_cell_28 parse_cell_33 parse_cell_36 parse_cell_38

lemma level_names: "int_to_str 0 = ''0''" "int_to_str 1 = ''1''"
  by (simp_all add: int_to_str_def digit_char_def)

lemma finite_col_at:
  assumes "finite_col c"
  shows "missing_at c i = False" "posinf_at c i = False" "neginf_at c i = False"
proof -
  have "is_fin (xs ! i)" if "c = Float64 xs" "i < length xs" for xs
    using assms that by (simp add: list_all_length)
  then show "missing_at c i = False" "posinf_at c i = False" "neginf_at c i = False"
    by (cases c; fastforce)+
qed

lemma finite_col_fun:
  assumes "finite_col c"
  shows "missing_at c = (\<lambda>i. False)" "posinf_at c = (\<lambda>i. False)" "neginf_at c = (\<lambda>i. False)"
  using finite_col_at [OF assms] by auto

lemma int_col_fun:
  "missing_at (Int64 xs) = (\<lambda>i. False)" "posinf_at (Int64 xs) = (\<lambda>i. False)"
  "neginf_at (Int64 xs) = (\<lambda>i. False)"
  "missing_at (UInt8 ys) = (\<lambda>i. False)" "posinf_at (UInt8 ys) = (\<lambda>i. False)"
  "neginf_at (UInt8 ys) = (\<lambda>i. False)"
  by auto

lemma list_ex_False: "list_ex (\<lambda>x. False) xs = False"
  by (simp add: list_ex_iff)


lemmas stmt_defs = print_describe_def assign_ols_def assign_fit_def print_summary_def summary_def
  regress_def param_def assign_product_def set_product_def print_head_data_in_def frame_at_def emit_def

lemmas frame_defs = get_dummies_def getitem_def setitem_def query_eq_def select_def head_def










section \<open>The frames built from a wage table\<close>

text \<open>
  On a table of the schema the columns can be made explicit, the levels of the two
  indicator columns are \<open>[0, 1]\<close>, and \<^verbatim>\<open>get_dummies\<close> and the four products are
  computed. On a table of the schema that is also finite, the whole notebook runs.
\<close>

lemma binary_nth: "set xs = {0, 1::int} \<Longrightarrow> i < length xs \<Longrightarrow> xs ! i = 0 \<or> xs ! i = 1"
  using nth_mem [of i xs] by auto

lemma build_wage_table:
  assumes wt: "wage_table t"
  obtains d0 d1 d2 d3 d4 fx mx where
    "get_dummies t [''female'', ''married''] = Inr d0"
    "set_product d0 ''marrfem'' ''female_1'' ''married_1'' = Inr d1"
    "set_product d1 ''marrmale'' ''female_0'' ''married_1'' = Inr d2"
    "set_product d2 ''singfem'' ''female_1'' ''married_0'' = Inr d3"
    "set_product d3 ''singmale'' ''female_0'' ''married_0'' = Inr d4"
    "map_of (cols t) ''female'' = Some (Int64 fx)" "set fx = {0, 1}" "length fx = nrows t"
    "map_of (cols t) ''married'' = Some (Int64 mx)" "set mx = {0, 1}" "length mx = nrows t"
    "nrows d0 = nrows t" "nrows d3 = nrows t" "nrows d4 = nrows t"
    "map_of (cols d0) ''female_0'' = Some (UInt8 (map (\<lambda>x. if x = 0 then 1 else 0) fx))"
    "map_of (cols d0) ''female_1'' = Some (UInt8 (map (\<lambda>x. if x = 1 then 1 else 0) fx))"
    "map_of (cols d0) ''married_0'' = Some (UInt8 (map (\<lambda>x. if x = 0 then 1 else 0) mx))"
    "map_of (cols d0) ''married_1'' = Some (UInt8 (map (\<lambda>x. if x = 1 then 1 else 0) mx))"
    "map_of (cols d4) ''marrfem'' = Some (UInt8 (map (\<lambda>(x, y). x * y)
        (zip (map (\<lambda>x. if x = 1 then 1 else 0) fx) (map (\<lambda>x. if x = 1 then 1 else 0) mx))))"
    "map_of (cols d4) ''marrmale'' = Some (UInt8 (map (\<lambda>(x, y). x * y)
        (zip (map (\<lambda>x. if x = 0 then 1 else 0) fx) (map (\<lambda>x. if x = 1 then 1 else 0) mx))))"
    "map_of (cols d4) ''singfem'' = Some (UInt8 (map (\<lambda>(x, y). x * y)
        (zip (map (\<lambda>x. if x = 1 then 1 else 0) fx) (map (\<lambda>x. if x = 0 then 1 else 0) mx))))"
    "map_of (cols d4) ''singmale'' = Some (UInt8 (map (\<lambda>(x, y). x * y)
        (zip (map (\<lambda>x. if x = 0 then 1 else 0) fx) (map (\<lambda>x. if x = 0 then 1 else 0) mx))))"
    "list_all (\<lambda>(n, c). col_len c = nrows t) (cols d4)"
    "complete_table t \<longrightarrow> complete_table d3 \<and> complete_table d4"
    "all_finite t \<longrightarrow> all_finite d3 \<and> all_finite d4"
    "map fst (cols d3) =
       [''wage'', ''educ'', ''exper'', ''tenure'', ''nonwhite'', ''numdep'', ''smsa'', ''northcen'',
        ''south'', ''west'', ''construc'', ''ndurman'', ''trcommpu'', ''trade'', ''services'',
        ''profserv'', ''profocc'', ''clerocc'', ''servocc'', ''lwage'', ''expersq'', ''tenursq'',
        ''female_0'', ''female_1'', ''married_0'', ''married_1'', ''marrfem'', ''marrmale'',
        ''singfem'']"
    "map fst (cols d4) =
       [''wage'', ''educ'', ''exper'', ''tenure'', ''nonwhite'', ''numdep'', ''smsa'', ''northcen'',
        ''south'', ''west'', ''construc'', ''ndurman'', ''trcommpu'', ''trade'', ''services'',
        ''profserv'', ''profocc'', ''clerocc'', ''servocc'', ''lwage'', ''expersq'', ''tenursq'',
        ''female_0'', ''female_1'', ''married_0'', ''married_1'', ''marrfem'', ''marrmale'',
        ''singfem'', ''singmale'']"
proof -
  from wt have names: "map fst (cols t) = wage_columns" by (simp add: wage_table_def)
  from explicit_cols [OF names] obtain c1 c2 c3 c4 c5 c6 c7 c8 c9 c10 c11 c12 c13 c14 c15 c16
    c17 c18 c19 c20 c21 c22 c23 c24 where ct: "cols t =
      [(''wage'', c1), (''educ'', c2), (''exper'', c3), (''tenure'', c4), (''nonwhite'', c5),
      (''female'', c6), (''married'', c7), (''numdep'', c8), (''smsa'', c9), (''northcen'', c10),
      (''south'', c11), (''west'', c12), (''construc'', c13), (''ndurman'', c14),
      (''trcommpu'', c15), (''trade'', c16), (''services'', c17), (''profserv'', c18),
      (''profocc'', c19), (''clerocc'', c20), (''servocc'', c21), (''lwage'', c22),
      (''expersq'', c23), (''tenursq'', c24)]" .
  from wt ct obtain fx where fx: "c6 = Int64 fx" "set fx = {0, 1}"
    by (auto simp: wage_table_def binary_column_def split: column.splits)
  from wt ct obtain mx where mx: "c7 = Int64 mx" "set mx = {0, 1}"
    by (auto simp: wage_table_def binary_column_def split: column.splits)
  from wt ct fx(1) mx(1) have len: "length fx = nrows t" "length mx = nrows t"
    by (simp_all add: wage_table_def)
  from wt have "list_all (\<lambda>(n, c). col_len c = nrows t) (cols t)"
    by (simp add: wage_table_def)
  note lens = this [unfolded ct, simplified]
  have lv: "sort (remdups fx) = [0, 1]" "sort (remdups mx) = [0, 1]"
    using fx mx by (simp_all add: levels_binary)
  define P where "P d0 d1 d2 d3 d4 \<longleftrightarrow>
    get_dummies t [''female'', ''married''] = Inr d0 \<and>
    set_product d0 ''marrfem'' ''female_1'' ''married_1'' = Inr d1 \<and>
    set_product d1 ''marrmale'' ''female_0'' ''married_1'' = Inr d2 \<and>
    set_product d2 ''singfem'' ''female_1'' ''married_0'' = Inr d3 \<and>
    set_product d3 ''singmale'' ''female_0'' ''married_0'' = Inr d4 \<and>
    nrows d0 = nrows t \<and> nrows d3 = nrows t \<and> nrows d4 = nrows t \<and>
    map_of (cols d0) ''female_0'' = Some (UInt8 (map (\<lambda>x. if x = 0 then 1 else 0) fx)) \<and>
    map_of (cols d0) ''female_1'' = Some (UInt8 (map (\<lambda>x. if x = 1 then 1 else 0) fx)) \<and>
    map_of (cols d0) ''married_0'' = Some (UInt8 (map (\<lambda>x. if x = 0 then 1 else 0) mx)) \<and>
    map_of (cols d0) ''married_1'' = Some (UInt8 (map (\<lambda>x. if x = 1 then 1 else 0) mx)) \<and>
    map_of (cols d4) ''marrfem'' = Some (UInt8 (map (\<lambda>(x, y). x * y)
        (zip (map (\<lambda>x. if x = 1 then 1 else 0) fx) (map (\<lambda>x. if x = 1 then 1 else 0) mx)))) \<and>
    map_of (cols d4) ''marrmale'' = Some (UInt8 (map (\<lambda>(x, y). x * y)
        (zip (map (\<lambda>x. if x = 0 then 1 else 0) fx) (map (\<lambda>x. if x = 1 then 1 else 0) mx)))) \<and>
    map_of (cols d4) ''singfem'' = Some (UInt8 (map (\<lambda>(x, y). x * y)
        (zip (map (\<lambda>x. if x = 1 then 1 else 0) fx) (map (\<lambda>x. if x = 0 then 1 else 0) mx)))) \<and>
    map_of (cols d4) ''singmale'' = Some (UInt8 (map (\<lambda>(x, y). x * y)
        (zip (map (\<lambda>x. if x = 0 then 1 else 0) fx) (map (\<lambda>x. if x = 0 then 1 else 0) mx)))) \<and>
    list_all (\<lambda>(n, c). col_len c = nrows t) (cols d4) \<and>
    (complete_table t \<longrightarrow> complete_table d3 \<and> complete_table d4) \<and>
    (all_finite t \<longrightarrow> all_finite d3 \<and> all_finite d4) \<and>
    map fst (cols d3) =
       [''wage'', ''educ'', ''exper'', ''tenure'', ''nonwhite'', ''numdep'', ''smsa'', ''northcen'',
        ''south'', ''west'', ''construc'', ''ndurman'', ''trcommpu'', ''trade'', ''services'',
        ''profserv'', ''profocc'', ''clerocc'', ''servocc'', ''lwage'', ''expersq'', ''tenursq'',
        ''female_0'', ''female_1'', ''married_0'', ''married_1'', ''marrfem'', ''marrmale'',
        ''singfem''] \<and>
    map fst (cols d4) =
       [''wage'', ''educ'', ''exper'', ''tenure'', ''nonwhite'', ''numdep'', ''smsa'', ''northcen'',
        ''south'', ''west'', ''construc'', ''ndurman'', ''trcommpu'', ''trade'', ''services'',
        ''profserv'', ''profocc'', ''clerocc'', ''servocc'', ''lwage'', ''expersq'', ''tenursq'',
        ''female_0'', ''female_1'', ''married_0'', ''married_1'', ''marrfem'', ''marrmale'',
        ''singfem'', ''singmale'']"
    for d0 d1 d2 d3 d4 :: "'a frame"
  have "\<exists>d0 d1 d2 d3 d4. P d0 d1 d2 d3 d4"
    unfolding P_def
    by (simp add: get_dummies_def set_product_def getitem_def setitem_def and_then_Inr
        ct fx(1) mx(1) lv level_names lens len complete_table_def all_finite_def)
  then obtain d0 d1 d2 d3 d4 where P: "P d0 d1 d2 d3 d4" by blast
  have orig: "map_of (cols t) ''female'' = Some (Int64 fx)" "map_of (cols t) ''married'' = Some (Int64 mx)"
    by (simp_all add: ct fx(1) mx(1))
  show ?thesis
    by (rule that [of d0 d1 d2 d3 d4 fx mx]) (use P orig fx(2) mx(2) len in \<open>simp_all add: P_def\<close>)
qed

lemma run_exists:
  assumes wt: "wage_table t" and fin: "all_finite t" and fs: "fs ''WAGE.csv'' = Some t"
  shows "\<exists>st. run_notebook fs = Inr st"
proof -
  from wt have names: "map fst (cols t) = wage_columns" by (simp add: wage_table_def)
  from explicit_cols [OF names] obtain c1 c2 c3 c4 c5 c6 c7 c8 c9 c10 c11 c12 c13 c14 c15 c16
    c17 c18 c19 c20 c21 c22 c23 c24 where ct: "cols t =
      [(''wage'', c1), (''educ'', c2), (''exper'', c3), (''tenure'', c4), (''nonwhite'', c5),
      (''female'', c6), (''married'', c7), (''numdep'', c8), (''smsa'', c9), (''northcen'', c10),
      (''south'', c11), (''west'', c12), (''construc'', c13), (''ndurman'', c14),
      (''trcommpu'', c15), (''trade'', c16), (''services'', c17), (''profserv'', c18),
      (''profocc'', c19), (''clerocc'', c20), (''servocc'', c21), (''lwage'', c22),
      (''expersq'', c23), (''tenursq'', c24)]" .
  from wt ct obtain fx where fx: "c6 = Int64 fx" "set fx = {0, 1}"
    by (auto simp: wage_table_def binary_column_def split: column.splits)
  from wt ct obtain mx where mx: "c7 = Int64 mx" "set mx = {0, 1}"
    by (auto simp: wage_table_def binary_column_def split: column.splits)
  from wt ct fx(1) mx(1) have len: "length fx = nrows t" "length mx = nrows t"
    by (simp_all add: wage_table_def)
  have "card (set fx) \<le> length fx" by (rule card_length)
  with fx(2) len have rows: "\<not> nrows t < 2" "nrows t \<noteq> 0" by simp_all
  have lv: "sort (remdups fx) = [0, 1]" "sort (remdups mx) = [0, 1]"
    using fx mx by (simp_all add: levels_binary)
  from fin have "list_all (\<lambda>(n, c). finite_col c) (cols t)" by (simp add: all_finite_def)
  note fins = this [unfolded ct, simplified]
  show ?thesis
    unfolding run_notebook_def notebook_def
    by (simp add: cell_defs stmt_defs frame_defs init_def fs ct fx(1) mx(1) lv
        level_names parse_cells ols_def lookup_var_def kept_rows_def numeric_vars_def
        formula_vars_def fit_def params_def len rows fins finite_col_at finite_col_fun
        int_col_fun list_ex_False)
qed

lemma run_cells_append:
  "run_cells (cs @ ds) st = and_then (run_cells cs st) (run_cells ds)"
  by (induction cs arbitrary: st) (auto simp: and_then_def split: sum.splits)

lemma example_table_ok:
  "wage_table example_table" "complete_table example_table" "all_finite example_table"
  "example_fs ''WAGE.csv'' = Some example_table"
  by (simp_all add: wage_table_def complete_table_def all_finite_def binary_column_def
      wage_columns_def example_table_def example_fs_def insert_commute)

lemma example_run:
  obtains st where "run_notebook example_fs = Inr st"
  using run_exists [of example_table example_fs,
      OF example_table_ok(1) example_table_ok(3) example_table_ok(4)] by blast

lemma same_frames_refl: "same_frames st st"
  by (simp add: same_frames_def)

lemma same_frames_trans: "same_frames s1 s2 \<Longrightarrow> same_frames s2 s3 \<Longrightarrow> same_frames s1 s3"
  by (simp add: same_frames_def)

lemma regress_same_frames: "regress fml name v st = Inr st' \<Longrightarrow> same_frames st st'"
  by (erule regress_fit)

lemma prefix_ge_14:
  assumes run: "run_cells (take k (notebook fs)) init = Inr sk" and k: "14 \<le> k"
  obtains s14 where "run_cells (take 14 (notebook fs)) init = Inr s14" "same_frames s14 sk"
proof -
  from k obtain j where j: "k = 14 + j" by (auto simp: le_iff_add)
  have rest: "drop 14 (notebook fs) = [cell_36, cell_38]"
    by (simp add: notebook_def)
  from run obtain s14 where s14: "run_cells (take 14 (notebook fs)) init = Inr s14"
    and tl: "run_cells (take j [cell_36, cell_38]) s14 = Inr sk"
    unfolding j take_add run_cells_append rest by (auto simp: and_then_Inr)
  have "same_frames s14 sk"
  proof (cases j)
    case 0
    with tl show ?thesis by (simp add: same_frames_refl)
  next
    case (Suc i)
    show ?thesis
    proof (cases i)
      case 0
      with Suc tl have "cell_36 s14 = Inr sk" by (simp add: and_then_Inr)
      then show ?thesis unfolding cell_36_def by (rule regress_same_frames)
    next
      case (Suc i')
      with \<open>j = Suc i\<close> tl obtain s15 where "cell_36 s14 = Inr s15" "cell_38 s15 = Inr sk"
        by (auto simp: and_then_Inr)
      then show ?thesis
        unfolding cell_36_def cell_38_def
        by (blast intro: same_frames_trans regress_same_frames)
    qed
  qed
  with s14 show ?thesis by (rule that)
qed

section \<open>The frame bound to \<open>data\<close> is never changed\<close>

text \<open>
  \<open>data_kept\<close> holds after the load and every later cell keeps it, whatever the table
  is: a cell either leaves the heap alone, or allocates a fresh frame, or updates the frame
  at the address of \<open>data_in\<close>, which is not the address of \<open>data\<close>.
\<close>

lemma frame_kept: "same_frames st st' \<Longrightarrow> data_kept t st \<Longrightarrow> data_kept t st'"
  by (auto simp: same_frames_def data_kept_def var_frame_def split: option.splits)

lemma display_kept:
  assumes "display_only st st'" and "data_kept t st"
  shows "data_kept t st'"
proof -
  from assms(1) have "same_frames st st'" by (simp add: display_only_def)
  then show ?thesis using assms(2) by (rule frame_kept)
qed

lemma regress_kept: "regress fml name v st = Inr st' \<Longrightarrow> data_kept t st \<Longrightarrow> data_kept t st'"
  by (rule frame_kept [OF regress_same_frames])

lemma assign_product_kept:
  assumes "assign_product target a b st = Inr st'" and "data_kept t st"
  shows "data_kept t st'"
proof -
  from assms(1) obtain addr and df df' :: "'a frame" where
    "data_in st = Some addr" "addr < length (heap st)"
    "heap st' = (heap st)[addr := df']" "data st' = data st" "data_in st' = data_in st"
    "out st' = out st"
    by (rule assign_product_update)
  with assms(2) show ?thesis
    by (auto simp: data_kept_def var_frame_def split: option.splits if_splits)
qed

lemma cell_25_kept:
  assumes "cell_25 st = Inr st'" and "data_kept t st"
  shows "data_kept t st'"
proof -
  from assms(1) obtain a df d where
    "frame_at st ''data'' (data st) = Inr (a, df)"
    "heap st' = heap st @ [d]" "data st' = data st" "data_in st' = Some (length (heap st))"
    "file_events (out st') = file_events (out st)"
    by (rule cell_25_dummies)
  with assms(2) show ?thesis
    by (auto simp: data_kept_def var_frame_def frame_at_def nth_append
        split: option.splits if_splits)
qed

lemma cell_26_kept:
  assumes "cell_26 st = Inr st'" and "data_kept t st"
  shows "data_kept t st'"
proof -
  from assms(1) obtain s1 s2 s3 where
    "assign_product ''marrfem'' ''female_1'' ''married_1'' st = Inr s1"
    "assign_product ''marrmale'' ''female_0'' ''married_1'' s1 = Inr s2"
    "assign_product ''singfem'' ''female_1'' ''married_0'' s2 = Inr s3"
    "print_head_data_in s3 = Inr st'"
    by (auto simp: cell_26_def and_then_Inr)
  with assms(2) show ?thesis
    by (blast intro: assign_product_kept display_kept print_head_data_in_display)
qed

lemma cell_33_kept:
  assumes "cell_33 st = Inr st'" and "data_kept t st"
  shows "data_kept t st'"
proof -
  from assms(1) obtain s1 where
    "assign_product ''singmale'' ''female_0'' ''married_0'' st = Inr s1"
    "regress ''lwage ~ 1 + marrmale + singfem + singmale + educ + exper + expersq + tenure + tenursq''
         ''data_in'' (data_in s1) s1 = Inr st'"
    by (auto simp: cell_33_def and_then_Inr)
  with assms(2) show ?thesis
    by (blast intro: assign_product_kept regress_kept)
qed

lemma cell_5_kept:
  assumes "cell_5 fs init = Inr st"
  shows "\<exists>t. fs ''WAGE.csv'' = Some t \<and> data_kept t st"
  using assms
  by (auto simp: cell_5_def init_def emit_def data_kept_def var_frame_def file_events_def
      split: option.splits)

lemma later_cells_kept:
  assumes "c \<in> set (drop 2 (notebook fs))" and "c s = Inr s'" and "data_kept t s"
  shows "data_kept t s'"
proof -
  from assms(1) consider "c = cell_7" | "c = cell_9" | "c = cell_11" | "c = cell_14"
    | "c = cell_16" | "c = cell_19" | "c = cell_21" | "c = cell_25" | "c = cell_26"
    | "c = cell_28" | "c = cell_30" | "c = cell_33" | "c = cell_36" | "c = cell_38"
    by (auto simp: notebook_def)
  then show ?thesis
  proof cases
    case 1 with assms(2,3) show ?thesis by (blast intro: display_kept cell_7_display)
  next
    case 2 with assms(2,3) show ?thesis
      unfolding cell_9_def by (blast intro: display_kept print_describe_display)
  next
    case 3 with assms(2,3) show ?thesis
      unfolding cell_11_def by (blast intro: display_kept print_describe_display)
  next
    case 4 with assms(2,3) show ?thesis unfolding cell_14_def by (blast intro: regress_kept)
  next
    case 5 with assms(2,3) show ?thesis by (blast intro: display_kept cell_16_display)
  next
    case 6 with assms(2,3) show ?thesis unfolding cell_19_def by (blast intro: regress_kept)
  next
    case 7 with assms(2,3) show ?thesis by (blast intro: display_kept cell_21_display)
  next
    case 8 with assms(2,3) show ?thesis by (blast intro: cell_25_kept)
  next
    case 9 with assms(2,3) show ?thesis by (blast intro: cell_26_kept)
  next
    case 10 with assms(2,3) show ?thesis unfolding cell_28_def by (blast intro: regress_kept)
  next
    case 11 with assms(2,3) show ?thesis by (blast intro: display_kept cell_30_display)
  next
    case 12 with assms(2,3) show ?thesis by (blast intro: cell_33_kept)
  next
    case 13 with assms(2,3) show ?thesis unfolding cell_36_def by (blast intro: regress_kept)
  next
    case 14 with assms(2,3) show ?thesis unfolding cell_38_def by (blast intro: regress_kept)
  qed
qed

lemma run_cells_kept:
  assumes "\<forall>c\<in>set cs. \<forall>s s'. c s = Inr s' \<longrightarrow> data_kept t s \<longrightarrow> data_kept t s'"
    and "run_cells cs st = Inr st'" and "data_kept t st"
  shows "data_kept t st'"
  using assms
proof (induction cs arbitrary: st)
  case Nil
  then show ?case by simp
next
  case (Cons c cs)
  from Cons.prems(2) obtain s1 where s1: "c st = Inr s1" "run_cells cs s1 = Inr st'"
    by (auto simp: and_then_Inr)
  from Cons.prems(1) s1(1) Cons.prems(3) have "data_kept t s1" by simp
  moreover from Cons.prems(1)
  have "\<forall>c\<in>set cs. \<forall>s s'. c s = Inr s' \<longrightarrow> data_kept t s \<longrightarrow> data_kept t s'" by simp
  ultimately show ?case using Cons.IH [of s1] s1(2) by simp
qed

section \<open>The claims\<close>

text \<open>
  C2. On a wage table, \<^verbatim>\<open>pd.get_dummies\<close> followed by the four product assignments
  builds a frame with the rows of the table in which, on every row, each of
  \<open>marrmale\<close>, \<open>marrfem\<close>, \<open>singfem\<close> and \<open>singmale\<close> is 0 or 1, exactly one of
  the four is 1, and it is the one of the row's group: married men, married women, single
  women, single men. Whenever the notebook has run up to the last of these assignments
  (cell 33) or further, \<open>data_in\<close> is that frame.
\<close>

theorem group_columns_one_hot:
  assumes "wage_table t" and "fs ''WAGE.csv'' = Some t"
  shows "\<exists>d0 d1 d2 d3 d.
           get_dummies t [''female'', ''married''] = Inr d0 \<and>
           set_product d0 ''marrfem'' ''female_1'' ''married_1'' = Inr d1 \<and>
           set_product d1 ''marrmale'' ''female_0'' ''married_1'' = Inr d2 \<and>
           set_product d2 ''singfem'' ''female_1'' ''married_0'' = Inr d3 \<and>
           set_product d3 ''singmale'' ''female_0'' ''married_0'' = Inr d \<and>
           nrows d = nrows t \<and> (\<forall>i<nrows d. group_row t d i) \<and>
           (14 \<le> k \<and> run_cells (take k (notebook fs)) init = Inr sk \<longrightarrow>
              var_frame sk (data_in sk) = Some d)"
proof -
  from assms(1) obtain d0 d1 d2 d3 d fx mx where
    build: "get_dummies t [''female'', ''married''] = Inr d0"
      "set_product d0 ''marrfem'' ''female_1'' ''married_1'' = Inr d1"
      "set_product d1 ''marrmale'' ''female_0'' ''married_1'' = Inr d2"
      "set_product d2 ''singfem'' ''female_1'' ''married_0'' = Inr d3"
      "set_product d3 ''singmale'' ''female_0'' ''married_0'' = Inr d" and
    orig: "map_of (cols t) ''female'' = Some (Int64 fx)" "set fx = {0, 1}" "length fx = nrows t"
          "map_of (cols t) ''married'' = Some (Int64 mx)" "set mx = {0, 1}" "length mx = nrows t" and
    rows: "nrows d = nrows t" and
    prod: "map_of (cols d) ''marrfem'' = Some (UInt8 (map (\<lambda>(x, y). x * y)
        (zip (map (\<lambda>x. if x = 1 then 1 else 0) fx) (map (\<lambda>x. if x = 1 then 1 else 0) mx))))"
    "map_of (cols d) ''marrmale'' = Some (UInt8 (map (\<lambda>(x, y). x * y)
        (zip (map (\<lambda>x. if x = 0 then 1 else 0) fx) (map (\<lambda>x. if x = 1 then 1 else 0) mx))))"
    "map_of (cols d) ''singfem'' = Some (UInt8 (map (\<lambda>(x, y). x * y)
        (zip (map (\<lambda>x. if x = 1 then 1 else 0) fx) (map (\<lambda>x. if x = 0 then 1 else 0) mx))))"
    "map_of (cols d) ''singmale'' = Some (UInt8 (map (\<lambda>(x, y). x * y)
        (zip (map (\<lambda>x. if x = 0 then 1 else 0) fx) (map (\<lambda>x. if x = 0 then 1 else 0) mx))))"
    by (rule build_wage_table)
  have groups: "group_row t d i" if "i < nrows d" for i
  proof -
    from that rows orig have i: "i < length fx" "i < length mx" by simp_all
    from binary_nth [OF orig(2) i(1)] binary_nth [OF orig(5) i(2)] i show ?thesis
      by (auto simp: group_row_def u8_cell_def int_cell_def orig prod)
  qed
  have bound: "var_frame sk (data_in sk) = Some d"
    if "14 \<le> k" and "run_cells (take k (notebook fs)) init = Inr sk"
  proof -
    from that(2,1) obtain s14 where
      s14: "run_cells (take 14 (notebook fs)) init = Inr s14" and same: "same_frames s14 sk"
      by (rule prefix_ge_14)
    from s14 obtain t' e0 e1 e2 e3 e4 m1 m2 m3 m4 where
      "fs ''WAGE.csv'' = Some t'"
      "get_dummies t' [''female'', ''married''] = Inr e0"
      "set_product e0 ''marrfem'' ''female_1'' ''married_1'' = Inr e1"
      "set_product e1 ''marrmale'' ''female_0'' ''married_1'' = Inr e2"
      "set_product e2 ''singfem'' ''female_1'' ''married_0'' = Inr e3"
      "set_product e3 ''singmale'' ''female_0'' ''married_0'' = Inr e4"
      "shape s14 [t', e4] (Some 1) [m1, m2, m3, m4]"
      by (rule prefix_14_Inr)
    with assms(2) build have "shape s14 [t, d] (Some 1) [m1, m2, m3, m4]" by simp
    with same show ?thesis
      by (simp add: shape_def same_frames_def var_frame_def)
  qed
  from build rows groups bound show ?thesis by blast
qed

theorem group_columns_one_hot_witness:
  "wage_table example_table \<and> example_fs ''WAGE.csv'' = Some example_table \<and> 14 \<le> (16::nat) \<and>
   (\<exists>sk d0 d1 d2 d3 d.
      run_cells (take 16 (notebook example_fs)) init = Inr sk \<and>
      get_dummies example_table [''female'', ''married''] = Inr d0 \<and>
      set_product d0 ''marrfem'' ''female_1'' ''married_1'' = Inr d1 \<and>
      set_product d1 ''marrmale'' ''female_0'' ''married_1'' = Inr d2 \<and>
      set_product d2 ''singfem'' ''female_1'' ''married_0'' = Inr d3 \<and>
      set_product d3 ''singmale'' ''female_0'' ''married_0'' = Inr d \<and>
      nrows d = nrows example_table \<and> (\<forall>i<nrows d. group_row example_table d i) \<and>
      var_frame sk (data_in sk) = Some d)"
proof -
  obtain sk where sk: "run_cells (take 16 (notebook example_fs)) init = Inr sk"
    using example_run by (auto simp: run_notebook_def notebook_def)
  have k: "14 \<le> (16::nat)" by simp
  note claim = group_columns_one_hot [of example_table example_fs 16 sk,
      OF example_table_ok(1) example_table_ok(4)]
  from example_table_ok(1) example_table_ok(4) sk k claim show ?thesis by blast
qed

text \<open>
  C3. On a wage table, \<^verbatim>\<open>pd.get_dummies(data, columns=['female','married'])\<close> returns a
  frame with the rows of the table in which, on every row, \<open>female_1\<close> is the original
  \<open>female\<close>, \<open>female_0\<close> is \<open>1 - female\<close>, \<open>married_1\<close> is the original
  \<open>married\<close> and \<open>married_0\<close> is \<open>1 - married\<close>, so that each pair of dummies sums
  to 1 and the original columns are recovered from the dummies.
\<close>

theorem get_dummies_round_trip:
  assumes "wage_table t"
  shows "\<exists>d. get_dummies t [''female'', ''married''] = Inr d \<and> nrows d = nrows t \<and>
           (\<forall>i<nrows t. dummies_row t d i)"
proof -
  from assms obtain d fx mx where
    call: "get_dummies t [''female'', ''married''] = Inr d" "nrows d = nrows t" and
    orig: "map_of (cols t) ''female'' = Some (Int64 fx)" "set fx = {0, 1}" "length fx = nrows t"
          "map_of (cols t) ''married'' = Some (Int64 mx)" "set mx = {0, 1}" "length mx = nrows t" and
    dum: "map_of (cols d) ''female_0'' = Some (UInt8 (map (\<lambda>x. if x = 0 then 1 else 0) fx))"
      "map_of (cols d) ''female_1'' = Some (UInt8 (map (\<lambda>x. if x = 1 then 1 else 0) fx))"
      "map_of (cols d) ''married_0'' = Some (UInt8 (map (\<lambda>x. if x = 0 then 1 else 0) mx))"
      "map_of (cols d) ''married_1'' = Some (UInt8 (map (\<lambda>x. if x = 1 then 1 else 0) mx))"
    by (rule build_wage_table)
  have "dummies_row t d i" if "i < nrows t" for i
  proof -
    from that orig have i: "i < length fx" "i < length mx" by simp_all
    from binary_nth [OF orig(2) i(1)] binary_nth [OF orig(5) i(2)] i show ?thesis
      by (auto simp: dummies_row_def u8_cell_def int_cell_def orig dum)
  qed
  with call show ?thesis by blast
qed

theorem get_dummies_round_trip_witness:
  "wage_table example_table \<and>
   (\<exists>d. get_dummies example_table [''female'', ''married''] = Inr d \<and>
      nrows d = nrows example_table \<and> (\<forall>i<nrows example_table. dummies_row example_table d i))"
proof -
  note claim = get_dummies_round_trip [of example_table, OF example_table_ok(1)]
  from example_table_ok(1) claim show ?thesis by simp
qed



text \<open>
  C6. Whatever the table read from \<^verbatim>\<open>WAGE.csv\<close> is, after every cell from the load on
  that the run reaches, \<open>data\<close> is bound to that table, unchanged, \<open>data_in\<close> is not
  the same frame, and the only file-system event is the one read of \<^verbatim>\<open>WAGE.csv\<close>:
  nothing is written. (With \<open>k\<close> at least the number of cells, the state is the one at
  the end of the notebook.)
\<close>

theorem data_frame_unchanged:
  assumes fs: "fs ''WAGE.csv'' = Some t" and k: "2 \<le> k"
    and run: "run_cells (take k (notebook fs)) init = Inr sk"
  shows "var_frame sk (data sk) = Some t \<and> data_in sk \<noteq> data sk \<and>
         file_events (out sk) = [File_read ''WAGE.csv'']"
proof -
  from k obtain j where j: "k = 2 + j" by (auto simp: le_iff_add)
  have split: "take k (notebook fs) = [cell_3, cell_5 fs] @ take j (drop 2 (notebook fs))"
    unfolding j take_add by (simp add: notebook_def)
  from run obtain s1 where s1: "cell_5 fs init = Inr s1"
    and rest: "run_cells (take j (drop 2 (notebook fs))) s1 = Inr sk"
    unfolding split by (auto simp: run_cells_append and_then_Inr cell_3_def)
  from cell_5_kept [OF s1] fs have loaded: "data_kept t s1" by auto
  have "\<forall>c\<in>set (take j (drop 2 (notebook fs))). \<forall>s s'.
      c s = Inr s' \<longrightarrow> data_kept t s \<longrightarrow> data_kept t s'"
    using later_cells_kept by (blast dest: in_set_takeD)
  then have "data_kept t sk"
    using rest loaded by (rule run_cells_kept)
  then show ?thesis by (simp add: data_kept_def)
qed

theorem data_frame_unchanged_witness:
  "example_fs ''WAGE.csv'' = Some example_table \<and> (2::nat) \<le> 16 \<and>
   (\<exists>sk. run_cells (take 16 (notebook example_fs)) init = Inr sk \<and>
      var_frame sk (data sk) = Some example_table \<and> data_in sk \<noteq> data sk \<and>
      file_events (out sk) = [File_read ''WAGE.csv''])"
proof -
  obtain sk where sk: "run_cells (take 16 (notebook example_fs)) init = Inr sk"
    using example_run by (auto simp: run_notebook_def notebook_def)
  have k: "(2::nat) \<le> 16" by simp
  note claim = data_frame_unchanged [of example_fs example_table 16 sk,
      OF example_table_ok(4) k sk]
  from example_table_ok(4) k sk claim show ?thesis by blast
qed




end
